theory Spec2Isabelle
  imports Main
begin

section \<open>Reaction handlers of the livestream backend (webapp/go/reaction\_handler.go)\<close>

text \<open>
  The handlers talk to a relational store through one request-scoped transaction.
  The embedding keeps the control flow of the Go functions: every early \<^verbatim>\<open>return\<close>
  is a branch, every statement sent through the transaction is appended to a log of
  events, and the answers of the store are read from an environment, so that a
  failing store is an input like any other.

  Go's \<^verbatim>\<open>int64\<close> is modelled by \<^typ>\<open>int\<close>: the handlers copy and compare identifiers
  and timestamps and never compute with them, so no wrap-around can occur.
\<close>

type_synonym int64 = int

subsection \<open>Errors\<close>

text \<open>
  \<^verbatim>\<open>sql.ErrNoRows\<close> is what \<^verbatim>\<open>tx.GetContext\<close> returns when no row matches;
  \<^verbatim>\<open>ErrEmptySlice\<close> is the error of \<^verbatim>\<open>sqlx.In\<close> for an empty slice argument;
  \<^verbatim>\<open>DBError\<close> is any other failure of the persistence layer, with its message.
\<close>

datatype error = ErrNoRows | ErrEmptySlice | DBError string

fun Error :: "error \<Rightarrow> string" where
  "Error ErrNoRows = ''sql: no rows in result set''"
| "Error ErrEmptySlice = ''empty slice passed to 'in' query''"
| "Error (DBError msg) = msg"

subsection \<open>Row models and response objects\<close>

record ReactionModel =
  ID :: int64
  EmojiName :: string
  UserID :: int64
  LivestreamID :: int64
  CreatedAt :: int64

text \<open>
  Modelled from the spec: the struct types \<^verbatim>\<open>UserModel\<close>, \<^verbatim>\<open>ThemeModel\<close>, \<^verbatim>\<open>Theme\<close> and
  \<^verbatim>\<open>User\<close>, which are declared in another file of the package. The records carry the
  fields the specification lists for a user, a theme and a user response, which are
  the fields that \<^verbatim>\<open>fillUserResponses\<close> reads and writes.
\<close>

record UserModel =
  ID :: int64
  Name :: string
  DisplayName :: string
  Description :: string

record ThemeModel =
  ID :: int64
  UserID :: int64
  DarkMode :: bool

record Theme =
  ID :: int64
  DarkMode :: bool

record User =
  ID :: int64
  Name :: string
  DisplayName :: string
  Description :: string
  Theme :: Theme
  IconHash :: string

text \<open>The anonymous struct that receives the rows of the icon hash query.\<close>

record IconHashRow =
  UserID :: int64
  Hash :: string

text \<open>
  \<^verbatim>\<open>LivestreamModel\<close> and \<^verbatim>\<open>Livestream\<close> are declared elsewhere too, and only the
  identifier of a \<^verbatim>\<open>Livestream\<close> is read here: the row type is the type variable
  \<open>'lm\<close>, the response type is \<open>'l\<close>.
\<close>

record 'l Reaction =
  ID :: int64
  EmojiName :: string
  User :: User
  Livestream :: 'l
  CreatedAt :: int64

record PostReactionRequest =
  EmojiName :: string

subsection \<open>Zero values and map reads\<close>

text \<open>Reading a missing key of a Go map gives the zero value of the element type.\<close>

definition zeroUserModel :: UserModel where
  "zeroUserModel = \<lparr>UserModel.ID = 0, Name = [], DisplayName = [], Description = []\<rparr>"

definition zeroThemeModel :: ThemeModel where
  "zeroThemeModel = \<lparr>ThemeModel.ID = 0, UserID = 0, DarkMode = False\<rparr>"

definition zeroUser :: User where
  "zeroUser = \<lparr>User.ID = 0, Name = [], DisplayName = [], Description = [],
     Theme = \<lparr>Theme.ID = 0, DarkMode = False\<rparr>, IconHash = []\<rparr>"

definition index :: "('k \<rightharpoonup> 'v) \<Rightarrow> 'v \<Rightarrow> 'k \<Rightarrow> 'v" where
  "index m zero k = (case m k of None \<Rightarrow> zero | Some v \<Rightarrow> v)"

subsection \<open>The store and the collaborators\<close>

datatype query =
    SelectReactions int64 "int option"
  | SelectUsersIn "int64 list"
  | SelectThemesIn "int64 list"
  | SelectIconHashesIn "int64 list"
  | SelectLivestreamsIn "int64 list"
  | GetUser int64
  | GetLivestream int64
  | InsertReaction ReactionModel

datatype event = Begin | Commit | Rollback | Query query

text \<open>
  The environment of one request. The \<^verbatim>\<open>select\<close>, \<^verbatim>\<open>get\<close> and \<^verbatim>\<open>insert\<close> fields are
  the answers of the store to the statements of this file; \<^verbatim>\<open>beginTx\<close> and
  \<^verbatim>\<open>commitTx\<close> are the errors of \<^verbatim>\<open>BeginTxx\<close> and \<^verbatim>\<open>Commit\<close>, if any.
  \<^verbatim>\<open>fillUserResponse\<close>, \<^verbatim>\<open>fillLivestreamResponse\<close> and \<^verbatim>\<open>fillLivestreamResponses\<close>
  are functions of the package defined in other files; they are parameters here,
  and the statements they send themselves are not part of the log.
  \<^verbatim>\<open>fallbackImageHash\<close> is a package constant defined in another file.
\<close>

record ('lm, 'l) env =
  fallbackImageHash :: string
  zeroLivestream :: 'l
  idOfLivestream :: "'l \<Rightarrow> int64"
  beginTx :: "error option"
  commitTx :: "error option"
  selectReactions :: "int64 \<Rightarrow> int option \<Rightarrow> error + ReactionModel list"
  selectUsers :: "int64 list \<Rightarrow> error + UserModel list"
  selectThemes :: "int64 list \<Rightarrow> error + ThemeModel list"
  selectIconHashes :: "int64 list \<Rightarrow> error + IconHashRow list"
  selectLivestreams :: "int64 list \<Rightarrow> error + 'lm list"
  getUser :: "int64 \<Rightarrow> error + UserModel"
  getLivestream :: "int64 \<Rightarrow> error + 'lm"
  insertReaction :: "ReactionModel \<Rightarrow> error + (error + int64)"
  fillUserResponse :: "UserModel \<Rightarrow> error + User"
  fillLivestreamResponse :: "'lm \<Rightarrow> error + 'l"
  fillLivestreamResponses :: "'lm list \<Rightarrow> error + 'l list"
  now :: int64

text \<open>
  A step of a function that works on the transaction: the events it sent and its
  result. \<^verbatim>\<open>andThen\<close> is the Go idiom \<^verbatim>\<open>if err != nil { return nil, err }\<close>.
\<close>

type_synonym 'a tx = "event list \<times> (error + 'a)"

definition local :: "error + 'a \<Rightarrow> 'a tx" where
  "local r = ([], r)"

definition issue :: "query \<Rightarrow> error + 'a \<Rightarrow> 'a tx" where
  "issue q r = ([Query q], r)"

definition andThen :: "'a tx \<Rightarrow> ('a \<Rightarrow> 'b tx) \<Rightarrow> 'b tx" where
  "andThen m k =
     (case m of
        (l, Inl e) \<Rightarrow> (l, Inl e)
      | (l, Inr a) \<Rightarrow> (case k a of (l', r) \<Rightarrow> (l @ l', r)))"

text \<open>
  \<^verbatim>\<open>sqlx.In\<close> expands the slice bound to \<^verbatim>\<open>IN (?)\<close> into one parameter per element,
  and rejects an empty slice.
\<close>

definition sqlxIn :: "int64 list \<Rightarrow> error + int64 list" where
  "sqlxIn ids = (if ids = [] then Inl ErrEmptySlice else Inr ids)"

subsection \<open>fillUserResponses\<close>

text \<open>
  The body of the last loop: the response for one requested identifier, from the
  three maps built out of the query results.
\<close>

definition userResponseOf ::
  "('lm, 'l) env \<Rightarrow> (int64 \<rightharpoonup> UserModel) \<Rightarrow> (int64 \<rightharpoonup> ThemeModel) \<Rightarrow> (int64 \<rightharpoonup> string)
     \<Rightarrow> int64 \<Rightarrow> User" where
  "userResponseOf env userMap themeMap hashMap uid =
     (let iconHash = (case hashMap uid of None \<Rightarrow> fallbackImageHash env | Some h \<Rightarrow> h)
      in \<lparr>User.ID = UserModel.ID (index userMap zeroUserModel uid),
          Name = UserModel.Name (index userMap zeroUserModel uid),
          DisplayName = UserModel.DisplayName (index userMap zeroUserModel uid),
          Description = UserModel.Description (index userMap zeroUserModel uid),
          Theme = \<lparr>Theme.ID = ThemeModel.ID (index themeMap zeroThemeModel uid),
                   DarkMode = ThemeModel.DarkMode (index themeMap zeroThemeModel uid)\<rparr>,
          IconHash = iconHash\<rparr>)"

definition fillUserResponses ::
  "('lm, 'l) env \<Rightarrow> int64 list \<Rightarrow> (int64 \<rightharpoonup> User) tx" where
  "fillUserResponses env userIDs =
     andThen (local (sqlxIn userIDs)) (\<lambda>params.
     andThen (issue (SelectUsersIn params) (selectUsers env params)) (\<lambda>userModels.
     let userMap = foldl (\<lambda>m ownerModel. m(UserModel.ID ownerModel \<mapsto> ownerModel))
                     Map.empty userModels in
     andThen (local (sqlxIn userIDs)) (\<lambda>params.
     andThen (issue (SelectThemesIn params) (selectThemes env params)) (\<lambda>themeModels.
     let themeMap = foldl (\<lambda>m themeModel. m(ThemeModel.UserID themeModel \<mapsto> themeModel))
                      Map.empty themeModels in
     andThen (local (sqlxIn userIDs)) (\<lambda>params.
     andThen (issue (SelectIconHashesIn params) (selectIconHashes env params)) (\<lambda>iconHashes.
     let hashMap = foldl (\<lambda>m iconHash. m(IconHashRow.UserID iconHash \<mapsto> Hash iconHash))
                     Map.empty iconHashes in
     local (Inr (foldl (\<lambda>userResponseMap id.
                    userResponseMap(id \<mapsto> userResponseOf env userMap themeMap hashMap id))
       Map.empty userIDs))))))))"

subsection \<open>fillReactionResponses\<close>

text \<open>
  \<^verbatim>\<open>make([]int64, n)\<close> is a slice of \<open>n\<close> zeros, and the loop appends to it.
\<close>

definition userIDsOf :: "ReactionModel list \<Rightarrow> int64 list" where
  "userIDsOf reactionModels =
     foldl (\<lambda>userIDs reaction. userIDs @ [ReactionModel.UserID reaction])
       (replicate (length reactionModels) 0) reactionModels"

definition livestreamIDsOf :: "ReactionModel list \<Rightarrow> int64 list" where
  "livestreamIDsOf reactionModels =
     foldl (\<lambda>livestreamIDs reaction. livestreamIDs @ [LivestreamID reaction])
       (replicate (length reactionModels) 0) reactionModels"

definition zeroReaction :: "('lm, 'l) env \<Rightarrow> 'l Reaction" where
  "zeroReaction env = \<lparr>Reaction.ID = 0, EmojiName = [], User = zeroUser,
     Livestream = zeroLivestream env, CreatedAt = 0\<rparr>"

text \<open>The body of the last loop: the response for one record, from the two maps.\<close>

definition reactionOf ::
  "('lm, 'l) env \<Rightarrow> (int64 \<rightharpoonup> User) \<Rightarrow> (int64 \<rightharpoonup> 'l) \<Rightarrow> ReactionModel \<Rightarrow> 'l Reaction" where
  "reactionOf env userResps livestreamMap reactionModel =
     (let user = index userResps zeroUser (ReactionModel.UserID reactionModel);
          livestream = index livestreamMap (zeroLivestream env) (LivestreamID reactionModel)
      in \<lparr>Reaction.ID = ReactionModel.ID reactionModel,
          EmojiName = ReactionModel.EmojiName reactionModel,
          User = user,
          Livestream = livestream,
          CreatedAt = ReactionModel.CreatedAt reactionModel\<rparr>)"

definition fillReactionResponses ::
  "('lm, 'l) env \<Rightarrow> ReactionModel list \<Rightarrow> ('l Reaction list) tx" where
  "fillReactionResponses env reactionModels =
     (if length reactionModels = 0 then local (Inr [])
      else
        andThen (fillUserResponses env (userIDsOf reactionModels)) (\<lambda>userResps.
        andThen (local (sqlxIn (livestreamIDsOf reactionModels))) (\<lambda>params.
        andThen (issue (SelectLivestreamsIn params) (selectLivestreams env params))
          (\<lambda>livestreamModels.
        andThen (local (fillLivestreamResponses env livestreamModels)) (\<lambda>livestreamResps.
        let livestreamMap = foldl (\<lambda>m resp. m(idOfLivestream env resp \<mapsto> resp))
                              Map.empty livestreamResps in
        local (Inr (foldl (\<lambda>reactions i.
                       reactions[i := reactionOf env userResps livestreamMap (reactionModels ! i)])
          (replicate (length reactionModels) (zeroReaction env))
          [0..<length reactionModels])))))))"

subsection \<open>fillReactionResponse\<close>

definition fillReactionResponse ::
  "('lm, 'l) env \<Rightarrow> ReactionModel \<Rightarrow> ('l Reaction) tx" where
  "fillReactionResponse env reactionModel =
     andThen (issue (GetUser (ReactionModel.UserID reactionModel))
                (getUser env (ReactionModel.UserID reactionModel))) (\<lambda>userModel.
     andThen (local (fillUserResponse env userModel)) (\<lambda>user.
     andThen (issue (GetLivestream (LivestreamID reactionModel))
                (getLivestream env (LivestreamID reactionModel))) (\<lambda>livestreamModel.
     andThen (local (fillLivestreamResponse env livestreamModel)) (\<lambda>livestream.
     local (Inr \<lparr>Reaction.ID = ReactionModel.ID reactionModel,
                  EmojiName = ReactionModel.EmojiName reactionModel,
                  User = user,
                  Livestream = livestream,
                  CreatedAt = ReactionModel.CreatedAt reactionModel\<rparr>)))))"

subsection \<open>Requests and responses\<close>

text \<open>
  \<^verbatim>\<open>strconv.Atoi\<close>: an optional sign, then one or more decimal digits, and the value
  has to fit the 64-bit \<^verbatim>\<open>int\<close>.
\<close>

definition isDigit :: "char \<Rightarrow> bool" where
  "isDigit c = (48 \<le> (of_char c :: nat) \<and> (of_char c :: nat) \<le> 57)"

definition digitsValue :: "string \<Rightarrow> int" where
  "digitsValue ds = foldl (\<lambda>n c. 10 * n + (int (of_char c) - 48)) 0 ds"

definition Atoi :: "string \<Rightarrow> int option" where
  "Atoi s =
     (let neg = (s \<noteq> [] \<and> hd s = CHR ''-'');
          ds = (if s \<noteq> [] \<and> (hd s = CHR ''-'' \<or> hd s = CHR ''+'') then tl s else s);
          v = (if neg then - digitsValue ds else digitsValue ds)
      in if ds = [] \<or> \<not> list_all isDigit ds then None
         else if v < - (2 ^ 63) \<or> 2 ^ 63 - 1 < v then None
         else Some v)"

text \<open>
  The request body as \<^verbatim>\<open>encoding/json\<close> reads it: no JSON value at all (a syntax
  error or an empty body), or the first JSON value of the stream.
\<close>

datatype json =
    JNull
  | JBool bool
  | JNumber int
  | JString string
  | JArray "json list"
  | JObject "(string \<times> json) list"

datatype body = Malformed | Parsed json

definition toLower :: "char \<Rightarrow> char" where
  "toLower c =
     (if 65 \<le> (of_char c :: nat) \<and> (of_char c :: nat) \<le> 90
      then char_of ((of_char c :: nat) + 32) else c)"

text \<open>
  Decoding an object into the struct: a key that is \<^verbatim>\<open>emoji_name\<close> up to the case of
  its letters sets the field from a string, leaves it alone for \<^verbatim>\<open>null\<close> and is a
  type error for any other value; other keys are skipped.
\<close>

fun decodeFields :: "(string \<times> json) list \<Rightarrow> PostReactionRequest \<Rightarrow> PostReactionRequest option" where
  "decodeFields [] req = Some req"
| "decodeFields ((k, v) # kvs) req =
     (if map toLower k = ''emoji_name'' then
        (case v of
           JString s \<Rightarrow> decodeFields kvs (req\<lparr>PostReactionRequest.EmojiName := s\<rparr>)
         | JNull \<Rightarrow> decodeFields kvs req
         | _ \<Rightarrow> None)
      else decodeFields kvs req)"

text \<open>
  \<^verbatim>\<open>Decode(&req)\<close> with \<^verbatim>\<open>req\<close> of type \<^verbatim>\<open>*PostReactionRequest\<close>. The outer \<open>None\<close> is
  a decoding error; \<open>Some None\<close> is success with \<^verbatim>\<open>req\<close> left \<^verbatim>\<open>nil\<close>, which is what
  the JSON literal \<^verbatim>\<open>null\<close> does to a pointer.
\<close>

definition Decode :: "body \<Rightarrow> PostReactionRequest option option" where
  "Decode b =
     (case b of
        Malformed \<Rightarrow> None
      | Parsed JNull \<Rightarrow> Some None
      | Parsed (JObject kvs) \<Rightarrow>
          (case decodeFields kvs \<lparr>PostReactionRequest.EmojiName = []\<rparr> of
             None \<Rightarrow> None
           | Some req \<Rightarrow> Some (Some req))
      | Parsed _ \<Rightarrow> None)"

text \<open>
  What the handlers read from the \<^verbatim>\<open>echo.Context\<close>. \<^verbatim>\<open>verifyUserSession\<close> is a
  function of another file; its result for this request (the status and message of
  the \<^verbatim>\<open>echo.HTTPError\<close> it returns, if any) is a field, and so is the user
  identifier stored in the session, if there is one of type \<^verbatim>\<open>int64\<close>.
  \<^verbatim>\<open>queryParamLimit\<close> is \<^verbatim>\<open>c.QueryParam("limit")\<close>: the value of the parameter, and the
  empty string both when the parameter is absent and when it is present without a
  value (\<^verbatim>\<open>?limit=\<close>).
\<close>

record Context =
  paramLivestreamID :: string
  queryParamLimit :: string
  verifyUserSession :: "(nat \<times> string) option"
  sessionUserID :: "int64 option"
  requestBody :: body

datatype 'a response = HTTPError nat string | JSON nat 'a

datatype 'a outcome = Returns 'a | Panics

definition StatusOK :: nat where "StatusOK = 200"
definition StatusCreated :: nat where "StatusCreated = 201"
definition StatusBadRequest :: nat where "StatusBadRequest = 400"
definition StatusNotFound :: nat where "StatusNotFound = 404"
definition StatusInternalServerError :: nat where "StatusInternalServerError = 500"

text \<open>
  A successful \<^verbatim>\<open>BeginTxx\<close> opens the transaction; what the rest of the function sends
  comes after it.
\<close>

definition began :: "event list \<times> 'r \<Rightarrow> event list \<times> 'r" where
  "began rest = (case rest of (l, r) \<Rightarrow> (Begin # l, r))"

text \<open>
  \<^verbatim>\<open>defer tx.Rollback()\<close> right after a successful \<^verbatim>\<open>BeginTxx\<close>: whatever the rest
  of the function does, returning or panicking, the call runs when it exits.
  \<^verbatim>\<open>tx.Commit\<close> marks the transaction done before it calls the driver, so once
  \<^verbatim>\<open>Commit\<close> has been called, whether it succeeded or failed, the deferred call
  returns \<^verbatim>\<open>sql.ErrTxDone\<close> and sends nothing; otherwise it sends the rollback.
\<close>

definition deferRollback :: "event list \<times> 'r \<Rightarrow> event list \<times> 'r" where
  "deferRollback rest =
     (case rest of (l, r) \<Rightarrow> (if Commit \<in> set l then l else l @ [Rollback], r))"


subsection \<open>getReactionsHandler\<close>

definition getReactionsHandler ::
  "('lm, 'l) env \<Rightarrow> Context \<Rightarrow> event list \<times> ('l Reaction list) response outcome" where
  "getReactionsHandler env c =
     (case verifyUserSession c of
        Some (code, msg) \<Rightarrow> ([], Returns (HTTPError code msg))
      | None \<Rightarrow>
     (case Atoi (paramLivestreamID c) of
        None \<Rightarrow> ([], Returns (HTTPError StatusBadRequest
                  ''livestream_id in path must be integer''))
      | Some livestreamID \<Rightarrow>
     (case beginTx env of
        Some err \<Rightarrow> ([], Returns (HTTPError StatusInternalServerError
                     (''failed to begin transaction: '' @ Error err)))
      | None \<Rightarrow> began (deferRollback
     (if queryParamLimit c \<noteq> [] \<and> Atoi (queryParamLimit c) = None
      then ([], Returns (HTTPError StatusBadRequest
             ''limit query parameter must be integer''))
      else
        let limit = (if queryParamLimit c \<noteq> [] then Atoi (queryParamLimit c) else None);
            query = SelectReactions livestreamID limit
        in
     (case selectReactions env livestreamID limit of
        Inl err \<Rightarrow> ([Query query], Returns (HTTPError StatusNotFound
                    ''failed to get reactions''))
      | Inr reactionModels \<Rightarrow>
     (case fillReactionResponses env reactionModels of
        (l, Inl err) \<Rightarrow> (Query query # l, Returns (HTTPError StatusInternalServerError
                         (''failed to fill reactions: '' @ Error err)))
      | (l, Inr reactions) \<Rightarrow>
     (case commitTx env of
        Some err \<Rightarrow> (Query query # l @ [Commit],
                     Returns (HTTPError StatusInternalServerError
                       (''failed to commit: '' @ Error err)))
      | None \<Rightarrow> (Query query # l @ [Commit],
                  Returns (JSON StatusOK reactions))))))))))"

subsection \<open>postReactionHandler\<close>

definition postReactionHandler ::
  "('lm, 'l) env \<Rightarrow> Context \<Rightarrow> event list \<times> ('l Reaction) response outcome" where
  "postReactionHandler env c =
     (case Atoi (paramLivestreamID c) of
        None \<Rightarrow> ([], Returns (HTTPError StatusBadRequest
                  ''livestream_id in path must be integer''))
      | Some livestreamID \<Rightarrow>
     (case verifyUserSession c of
        Some (code, msg) \<Rightarrow> ([], Returns (HTTPError code msg))
      | None \<Rightarrow>
     (case sessionUserID c of
        None \<Rightarrow> ([], Panics)
      | Some userID \<Rightarrow>
     (case Decode (requestBody c) of
        None \<Rightarrow> ([], Returns (HTTPError StatusBadRequest
                  ''failed to decode the request body as json''))
      | Some req \<Rightarrow>
     (case beginTx env of
        Some err \<Rightarrow> ([], Returns (HTTPError StatusInternalServerError
                     (''failed to begin transaction: '' @ Error err)))
      | None \<Rightarrow> began (deferRollback
     (case req of
        None \<Rightarrow> ([], Panics)
      | Some r \<Rightarrow>
        let reactionModel = \<lparr>ReactionModel.ID = 0,
                               EmojiName = PostReactionRequest.EmojiName r,
                               UserID = userID,
                               LivestreamID = livestreamID,
                               CreatedAt = now env\<rparr>
        in
     (case insertReaction env reactionModel of
        Inl err \<Rightarrow> ([Query (InsertReaction reactionModel)],
                    Returns (HTTPError StatusInternalServerError
                      (''failed to insert reaction: '' @ Error err)))
      | Inr (Inl err) \<Rightarrow> ([Query (InsertReaction reactionModel)],
                    Returns (HTTPError StatusInternalServerError
                      (''failed to get last inserted reaction id: '' @ Error err)))
      | Inr (Inr reactionID) \<Rightarrow>
     (case fillReactionResponse env (reactionModel\<lparr>ReactionModel.ID := reactionID\<rparr>) of
        (l, Inl err) \<Rightarrow> (Query (InsertReaction reactionModel) # l,
                    Returns (HTTPError StatusInternalServerError
                      (''failed to fill reaction: '' @ Error err)))
      | (l, Inr reaction) \<Rightarrow>
     (case commitTx env of
        Some err \<Rightarrow> (Query (InsertReaction reactionModel) # l @ [Commit],
                     Returns (HTTPError StatusInternalServerError
                       (''failed to commit: '' @ Error err)))
      | None \<Rightarrow> (Query (InsertReaction reactionModel) # l @ [Commit],
                  Returns (JSON StatusCreated reaction))))))))))))"

subsection \<open>Reading the log\<close>

definition succeeded :: "error + 'a \<Rightarrow> bool" where
  "succeeded r = (case r of Inl e \<Rightarrow> False | Inr a \<Rightarrow> True)"

text \<open>The statements in a log, and the identifier lists of its bulk queries, by kind.\<close>

definition queriesOf :: "event list \<Rightarrow> query list" where
  "queriesOf log = [q. Query q \<leftarrow> log]"

definition usersQueries :: "event list \<Rightarrow> int64 list list" where
  "usersQueries log = [ids. Query (SelectUsersIn ids) \<leftarrow> log]"

definition themesQueries :: "event list \<Rightarrow> int64 list list" where
  "themesQueries log = [ids. Query (SelectThemesIn ids) \<leftarrow> log]"

definition iconHashesQueries :: "event list \<Rightarrow> int64 list list" where
  "iconHashesQueries log = [ids. Query (SelectIconHashesIn ids) \<leftarrow> log]"

definition livestreamsQueries :: "event list \<Rightarrow> int64 list list" where
  "livestreamsQueries log = [ids. Query (SelectLivestreamsIn ids) \<leftarrow> log]"

subsection \<open>A small store for concrete runs\<close>

text \<open>
  Two users, of whom only the first has an icon, two livestreams (a livestream row
  and its response are both just the identifier here) and three reactions. The
  reactions query takes the newest rows up to the limit, and fails for a negative
  limit, as the statement \<^verbatim>\<open>... LIMIT -1\<close> does.
\<close>

definition alice :: UserModel where
  "alice = \<lparr>UserModel.ID = 5, Name = ''alice'', DisplayName = ''Alice'',
     Description = ''streamer''\<rparr>"

definition bob :: UserModel where
  "bob = \<lparr>UserModel.ID = 6, Name = ''bob'', DisplayName = ''Bob'',
     Description = ''viewer''\<rparr>"

definition reaction1 :: ReactionModel where
  "reaction1 = \<lparr>ReactionModel.ID = 1, EmojiName = '':tada:'', UserID = 5,
     LivestreamID = 7, CreatedAt = 100\<rparr>"

definition reaction2 :: ReactionModel where
  "reaction2 = \<lparr>ReactionModel.ID = 2, EmojiName = '':+1:'', UserID = 6,
     LivestreamID = 7, CreatedAt = 101\<rparr>"

definition reaction3 :: ReactionModel where
  "reaction3 = \<lparr>ReactionModel.ID = 3, EmojiName = '':tada:'', UserID = 5,
     LivestreamID = 8, CreatedAt = 102\<rparr>"

definition sampleEnv :: "(int, int) env" where
  "sampleEnv = \<lparr>
     fallbackImageHash = ''fallback-hash'',
     zeroLivestream = 0,
     idOfLivestream = (\<lambda>l. l),
     beginTx = None,
     commitTx = None,
     selectReactions = (\<lambda>livestreamID limit.
        let rows = filter (\<lambda>r. LivestreamID r = livestreamID)
                     [reaction3, reaction2, reaction1]
        in case limit of
             None \<Rightarrow> Inr rows
           | Some n \<Rightarrow>
               if n < 0 then Inl (DBError ''Error 1064: You have an error in your SQL syntax'')
               else Inr (take (nat n) rows)),
     selectUsers = (\<lambda>ids. Inr (filter (\<lambda>u. UserModel.ID u \<in> set ids) [alice, bob])),
     selectThemes = (\<lambda>ids. Inr (filter (\<lambda>t. ThemeModel.UserID t \<in> set ids)
        [\<lparr>ThemeModel.ID = 1, UserID = 5, DarkMode = True\<rparr>,
         \<lparr>ThemeModel.ID = 2, UserID = 6, DarkMode = False\<rparr>])),
     selectIconHashes = (\<lambda>ids. Inr (filter (\<lambda>h. IconHashRow.UserID h \<in> set ids)
        [\<lparr>IconHashRow.UserID = 5, Hash = ''a1b2c3''\<rparr>])),
     selectLivestreams = (\<lambda>ids. Inr (filter (\<lambda>l. l \<in> set ids) [7, 8])),
     getUser = (\<lambda>i. if i = 5 then Inr alice else if i = 6 then Inr bob else Inl ErrNoRows),
     getLivestream = (\<lambda>i. if i = 7 \<or> i = 8 then Inr i else Inl ErrNoRows),
     insertReaction = (\<lambda>r. Inr (Inr 4)),
     fillUserResponse = (\<lambda>u. Inr \<lparr>User.ID = UserModel.ID u, Name = UserModel.Name u,
        DisplayName = UserModel.DisplayName u, Description = UserModel.Description u,
        Theme = \<lparr>Theme.ID = 1, DarkMode = True\<rparr>, IconHash = ''a1b2c3''\<rparr>),
     fillLivestreamResponse = (\<lambda>l. Inr l),
     fillLivestreamResponses = (\<lambda>ls. Inr ls),
     now = 1700000000\<rparr>"

text \<open>The same store with one operation failing.\<close>

definition txDownEnv :: "(int, int) env" where
  "txDownEnv = sampleEnv\<lparr>beginTx := Some (DBError ''connection refused'')\<rparr>"

definition reactionsDownEnv :: "(int, int) env" where
  "reactionsDownEnv =
     sampleEnv\<lparr>selectReactions := (\<lambda>livestreamID limit. Inl (DBError ''connection lost''))\<rparr>"

definition usersDownEnv :: "(int, int) env" where
  "usersDownEnv = sampleEnv\<lparr>selectUsers := (\<lambda>ids. Inl (DBError ''connection lost''))\<rparr>"

definition commitDownEnv :: "(int, int) env" where
  "commitDownEnv = sampleEnv\<lparr>commitTx := Some (DBError ''connection lost'')\<rparr>"

text \<open>The user responses for \<^verbatim>\<open>alice\<close> and \<^verbatim>\<open>bob\<close> and the reactions built from them.\<close>

definition aliceUser :: User where
  "aliceUser = \<lparr>User.ID = 5, Name = ''alice'', DisplayName = ''Alice'',
     Description = ''streamer'', Theme = \<lparr>Theme.ID = 1, DarkMode = True\<rparr>,
     IconHash = ''a1b2c3''\<rparr>"

definition bobUser :: User where
  "bobUser = \<lparr>User.ID = 6, Name = ''bob'', DisplayName = ''Bob'',
     Description = ''viewer'', Theme = \<lparr>Theme.ID = 2, DarkMode = False\<rparr>,
     IconHash = ''fallback-hash''\<rparr>"

definition sampleLog :: "event list" where
  "sampleLog = [Query (SelectUsersIn [0, 0, 0, 5, 6, 5]),
     Query (SelectThemesIn [0, 0, 0, 5, 6, 5]),
     Query (SelectIconHashesIn [0, 0, 0, 5, 6, 5]),
     Query (SelectLivestreamsIn [0, 0, 0, 7, 7, 8])]"

definition sampleReactions :: "int Reaction list" where
  "sampleReactions =
     [\<lparr>Reaction.ID = 1, EmojiName = '':tada:'', User = aliceUser, Livestream = 7,
        CreatedAt = 100\<rparr>,
      \<lparr>Reaction.ID = 2, EmojiName = '':+1:'', User = bobUser, Livestream = 7,
        CreatedAt = 101\<rparr>,
      \<lparr>Reaction.ID = 3, EmojiName = '':tada:'', User = aliceUser, Livestream = 8,
        CreatedAt = 102\<rparr>]"

text \<open>Requests: a valid one for livestream 7 by user 5, and variations of it.\<close>

definition sampleContext :: Context where
  "sampleContext = \<lparr>paramLivestreamID = ''7'', queryParamLimit = [],
     verifyUserSession = None, sessionUserID = Some 5,
     requestBody = Parsed (JObject [(''emoji_name'', JString '':tada:'')])\<rparr>"

definition negativeLimitContext :: Context where
  "negativeLimitContext = sampleContext\<lparr>queryParamLimit := ''-1''\<rparr>"

definition emptyLimitContext :: Context where
  "emptyLimitContext = sampleContext\<lparr>queryParamLimit := []\<rparr>"

definition badLimitContext :: Context where
  "badLimitContext = sampleContext\<lparr>queryParamLimit := ''abc''\<rparr>"

definition missingLivestreamContext :: Context where
  "missingLivestreamContext = sampleContext\<lparr>paramLivestreamID := ''9''\<rparr>"

definition unknownUserContext :: Context where
  "unknownUserContext = sampleContext\<lparr>sessionUserID := Some 9\<rparr>"

definition nullBodyContext :: Context where
  "nullBodyContext = sampleContext\<lparr>requestBody := Parsed JNull\<rparr>"

definition malformedBodyContext :: Context where
  "malformedBodyContext = sampleContext\<lparr>requestBody := Malformed\<rparr>"

section \<open>Properties\<close>

subsection \<open>Loops as list functions\<close>

lemma foldl_snoc_map: "foldl (\<lambda>acc r. acc @ [f r]) acc rs = acc @ map f rs"
  by (induction rs arbitrary: acc) simp_all

lemma userIDsOf_eq:
  "userIDsOf rs = replicate (length rs) 0 @ map ReactionModel.UserID rs"
  by (simp add: userIDsOf_def foldl_snoc_map)

lemma livestreamIDsOf_eq:
  "livestreamIDsOf rs = replicate (length rs) 0 @ map LivestreamID rs"
  by (simp add: livestreamIDsOf_def foldl_snoc_map)

lemma userIDsOf_nonempty: "rs \<noteq> [] \<Longrightarrow> userIDsOf rs \<noteq> []"
  by (simp add: userIDsOf_eq)

lemma livestreamIDsOf_nonempty: "rs \<noteq> [] \<Longrightarrow> livestreamIDsOf rs \<noteq> []"
  by (simp add: livestreamIDsOf_eq)

lemma foldl_upd_lookup:
  "foldl (\<lambda>m k. m(k \<mapsto> F k)) M ks = (\<lambda>k. if k \<in> set ks then Some (F k) else M k)"
  by (induction ks arbitrary: M) (auto simp: fun_eq_iff)

lemma foldl_list_update:
  "k \<le> length xs \<Longrightarrow>
   foldl (\<lambda>out i. out[i := h i]) xs [0..<k] = map h [0..<k] @ drop k xs"
proof (induction k)
  case 0
  then show ?case by simp
next
  case (Suc k)
  then have "k < length xs" by simp
  then have "drop k xs = xs ! k # drop (Suc k) xs"
    by (simp add: Cons_nth_drop_Suc)
  with Suc show ?case by (simp add: list_update_append)
qed

lemma fill_loop_map:
  "foldl (\<lambda>out i. out[i := g (rs ! i)]) (replicate (length rs) z) [0..<length rs] = map g rs"
proof -
  have "foldl (\<lambda>out i. out[i := g (rs ! i)]) (replicate (length rs) z) [0..<length rs]
        = map (\<lambda>i. g (rs ! i)) [0..<length rs]"
    using foldl_list_update[of "length rs" "replicate (length rs) z" "\<lambda>i. g (rs ! i)"]
    by simp
  also have "\<dots> = map g rs"
    by (rule nth_equalityI) simp_all
  finally show ?thesis .
qed

subsection \<open>Maps built from rows\<close>

lemma foldl_upd_dom:
  "dom (foldl (\<lambda>m r. m(f r \<mapsto> g r)) M rows) = dom M \<union> f ` set rows"
  by (induction rows arbitrary: M) auto

lemma foldl_upd_none:
  assumes "k \<notin> f ` set rows"
  shows "foldl (\<lambda>m r. m(f r \<mapsto> g r)) Map.empty rows k = None"
proof -
  from assms have "k \<notin> dom (foldl (\<lambda>m r. m(f r \<mapsto> g r)) Map.empty rows)"
    by (simp add: foldl_upd_dom)
  then show ?thesis by (simp add: domIff)
qed

lemma foldl_upd_some:
  "foldl (\<lambda>m r. m(f r \<mapsto> r)) Map.empty rows k = Some v \<Longrightarrow> v \<in> set rows \<and> f v = k"
proof (induction rows rule: rev_induct)
  case Nil
  then show ?case by simp
next
  case (snoc x xs)
  show ?case
  proof (cases "f x = k")
    case True
    with snoc.prems show ?thesis by simp
  next
    case False
    with snoc show ?thesis by simp
  qed
qed

lemma index_foldl_upd_mem:
  assumes "k \<in> f ` set rows"
  shows "index (foldl (\<lambda>m r. m(f r \<mapsto> r)) Map.empty rows) z k \<in> set rows \<and>
         f (index (foldl (\<lambda>m r. m(f r \<mapsto> r)) Map.empty rows) z k) = k"
proof -
  have "k \<in> dom (foldl (\<lambda>m r. m(f r \<mapsto> r)) Map.empty rows)"
    using assms foldl_upd_dom[of f "\<lambda>r. r" Map.empty rows] by simp
  then obtain v where v: "foldl (\<lambda>m r. m(f r \<mapsto> r)) Map.empty rows k = Some v"
    by auto
  from foldl_upd_some[OF v] v show ?thesis by (simp add: index_def)
qed

subsection \<open>The statements sent by the batch functions\<close>

lemmas query_lists =
  usersQueries_def themesQueries_def iconHashesQueries_def livestreamsQueries_def

lemma fillUserResponses_succeeded:
  "ids \<noteq> [] \<Longrightarrow> succeeded (snd (fillUserResponses env ids)) =
     (succeeded (selectUsers env ids) \<and> succeeded (selectThemes env ids)
      \<and> succeeded (selectIconHashes env ids))"
  by (auto simp: fillUserResponses_def andThen_def local_def issue_def sqlxIn_def Let_def
        succeeded_def split: sum.splits prod.splits)

lemma fillUserResponses_log:
  "ids \<noteq> [] \<Longrightarrow> fst (fillUserResponses env ids) =
     Query (SelectUsersIn ids) #
     (if succeeded (selectUsers env ids) then
        Query (SelectThemesIn ids) #
        (if succeeded (selectThemes env ids) then [Query (SelectIconHashesIn ids)] else [])
      else [])"
  by (simp add: fillUserResponses_def andThen_def local_def issue_def sqlxIn_def Let_def
        succeeded_def split: sum.splits prod.splits)

lemma fillReactionResponses_log:
  "rs \<noteq> [] \<Longrightarrow> fst (fillReactionResponses env rs) =
     fst (fillUserResponses env (userIDsOf rs)) @
     (if succeeded (snd (fillUserResponses env (userIDsOf rs)))
      then [Query (SelectLivestreamsIn (livestreamIDsOf rs))] else [])"
  by (simp add: fillReactionResponses_def andThen_def local_def issue_def sqlxIn_def Let_def
        succeeded_def livestreamIDsOf_nonempty split: sum.splits prod.splits)

lemma fillReactionResponses_succeeded:
  "rs \<noteq> [] \<Longrightarrow> succeeded (snd (fillReactionResponses env rs)) \<Longrightarrow>
     succeeded (snd (fillUserResponses env (userIDsOf rs)))"
  by (simp add: fillReactionResponses_def andThen_def local_def issue_def sqlxIn_def Let_def
        succeeded_def livestreamIDsOf_nonempty split: sum.splits prod.splits)

subsection \<open>The results of the batch functions\<close>

lemma fillUserResponses_result:
  assumes "fillUserResponses env userIDs = (log, Inr m)"
  shows "\<exists>userModels themeModels iconHashes.
           userIDs \<noteq> []
         \<and> selectUsers env userIDs = Inr userModels
         \<and> selectThemes env userIDs = Inr themeModels
         \<and> selectIconHashes env userIDs = Inr iconHashes
         \<and> m = (\<lambda>uid. if uid \<in> set userIDs then
                 Some (userResponseOf env
                   (foldl (\<lambda>m ownerModel. m(UserModel.ID ownerModel \<mapsto> ownerModel))
                      Map.empty userModels)
                   (foldl (\<lambda>m themeModel. m(ThemeModel.UserID themeModel \<mapsto> themeModel))
                      Map.empty themeModels)
                   (foldl (\<lambda>m iconHash. m(IconHashRow.UserID iconHash \<mapsto> Hash iconHash))
                      Map.empty iconHashes)
                   uid)
               else None)"
proof -
  note defs = fillUserResponses_def andThen_def local_def issue_def sqlxIn_def
  have ne: "userIDs \<noteq> []"
    using assms by (cases "userIDs = []") (simp_all add: defs)
  obtain us where us: "selectUsers env userIDs = Inr us"
    using assms ne by (cases "selectUsers env userIDs") (simp_all add: defs)
  obtain ts where ts: "selectThemes env userIDs = Inr ts"
    using assms ne us by (cases "selectThemes env userIDs") (simp_all add: defs Let_def)
  obtain hs where hs: "selectIconHashes env userIDs = Inr hs"
    using assms ne us ts
    by (cases "selectIconHashes env userIDs") (simp_all add: defs Let_def)
  have "m = (\<lambda>uid. if uid \<in> set userIDs then
                 Some (userResponseOf env
                   (foldl (\<lambda>m ownerModel. m(UserModel.ID ownerModel \<mapsto> ownerModel))
                      Map.empty us)
                   (foldl (\<lambda>m themeModel. m(ThemeModel.UserID themeModel \<mapsto> themeModel))
                      Map.empty ts)
                   (foldl (\<lambda>m iconHash. m(IconHashRow.UserID iconHash \<mapsto> Hash iconHash))
                      Map.empty hs)
                   uid)
               else None)"
    using assms ne us ts hs by (simp add: defs Let_def foldl_upd_lookup)
  with ne us ts hs show ?thesis by blast
qed

lemma fillReactionResponses_result:
  assumes "fillReactionResponses env rs = (log, Inr reactions)" and "rs \<noteq> []"
  shows "\<exists>l userResps lms lrs.
           fillUserResponses env (userIDsOf rs) = (l, Inr userResps)
         \<and> selectLivestreams env (livestreamIDsOf rs) = Inr lms
         \<and> fillLivestreamResponses env lms = Inr lrs
         \<and> reactions = map (reactionOf env userResps
               (foldl (\<lambda>m resp. m(idOfLivestream env resp \<mapsto> resp)) Map.empty lrs)) rs"
proof -
  note defs = fillReactionResponses_def andThen_def local_def issue_def sqlxIn_def
  have ne: "livestreamIDsOf rs \<noteq> []"
    using assms(2) by (rule livestreamIDsOf_nonempty)
  obtain l r where lr: "fillUserResponses env (userIDsOf rs) = (l, r)"
    by (cases "fillUserResponses env (userIDsOf rs)")
  obtain userResps where u: "r = Inr userResps"
    using assms lr by (cases r) (simp_all add: defs)
  obtain lms where lms: "selectLivestreams env (livestreamIDsOf rs) = Inr lms"
    using assms lr u ne
    by (cases "selectLivestreams env (livestreamIDsOf rs)") (simp_all add: defs)
  obtain lrs where lrs: "fillLivestreamResponses env lms = Inr lrs"
    using assms lr u ne lms
    by (cases "fillLivestreamResponses env lms") (simp_all add: defs)
  have "reactions = map (reactionOf env userResps
               (foldl (\<lambda>m resp. m(idOfLivestream env resp \<mapsto> resp)) Map.empty lrs)) rs"
    using assms lr u ne lms lrs by (simp add: defs Let_def fill_loop_map)
  with lr u lms lrs show ?thesis by blast
qed

subsection \<open>Concrete runs\<close>

lemmas sample_data =
  sampleEnv_def txDownEnv_def reactionsDownEnv_def usersDownEnv_def commitDownEnv_def
  alice_def bob_def reaction1_def reaction2_def reaction3_def aliceUser_def bobUser_def
  sampleLog_def sampleReactions_def sampleContext_def badLimitContext_def
  negativeLimitContext_def emptyLimitContext_def
  missingLivestreamContext_def unknownUserContext_def nullBodyContext_def
  malformedBodyContext_def

lemmas batch_steps =
  fillReactionResponses_def fillUserResponses_def fillReactionResponse_def andThen_def
  local_def issue_def sqlxIn_def userIDsOf_def livestreamIDsOf_def userResponseOf_def
  reactionOf_def index_def zeroUserModel_def zeroThemeModel_def zeroUser_def
  zeroReaction_def Let_def

lemmas handler_steps =
  getReactionsHandler_def postReactionHandler_def began_def deferRollback_def Decode_def
  StatusOK_def StatusCreated_def StatusBadRequest_def StatusNotFound_def
  StatusInternalServerError_def

lemma Atoi_7: "Atoi ''7'' = Some 7"
  by (simp add: Atoi_def isDigit_def digitsValue_def)

lemma Atoi_9: "Atoi ''9'' = Some 9"
  by (simp add: Atoi_def isDigit_def digitsValue_def)

lemma Atoi_abc: "Atoi ''abc'' = None"
  by (simp add: Atoi_def isDigit_def digitsValue_def)

lemma Atoi_empty: "Atoi [] = None"
  by (simp add: Atoi_def)

lemma Atoi_minus_1: "Atoi ''-1'' = Some (- 1)"
  by (simp add: Atoi_def isDigit_def digitsValue_def)

lemma Decode_tada:
  "Decode (Parsed (JObject [(''emoji_name'', JString '':tada:'')]))
     = Some (Some \<lparr>PostReactionRequest.EmojiName = '':tada:''\<rparr>)"
  by (simp add: Decode_def toLower_def)

lemma sample_fillReactionResponses:
  "fillReactionResponses sampleEnv [reaction1, reaction2, reaction3]
     = (sampleLog, Inr sampleReactions)"
  by (simp add: batch_steps sample_data)

lemma sample_fillUserResponses:
  "fillUserResponses sampleEnv [5, 6]
     = ([Query (SelectUsersIn [5, 6]), Query (SelectThemesIn [5, 6]),
         Query (SelectIconHashesIn [5, 6])],
        Inr [5 \<mapsto> aliceUser, 6 \<mapsto> bobUser])"
  by (simp add: batch_steps sample_data)

subsection \<open>The batch assembler\<close>

text \<open>
  C1 (as amended). For every non-empty list of reaction records, the statements that
  \<^verbatim>\<open>fillReactionResponses\<close> and \<^verbatim>\<open>fillUserResponses\<close> send themselves (what the
  external \<^verbatim>\<open>fillLivestreamResponses\<close> sends on the transaction it is given is not
  counted) are a beginning of the sequence users query, themes query, icon hash
  query, livestreams query, whatever the number of records: the users query is sent
  exactly once, and each later query is sent once if all the queries before it
  succeeded and not at all otherwise, so that a failing query ends the function
  before the later ones are sent. When the function returns a result, each of the
  four has been sent exactly once.
\<close>

theorem fillReactionResponses_bulk_queries:
  assumes "reactionModels \<noteq> []"
  shows "fst (fillReactionResponses env reactionModels) =
           take (1 + (if succeeded (selectUsers env (userIDsOf reactionModels)) then
                   1 + (if succeeded (selectThemes env (userIDsOf reactionModels)) then
                     1 + (if succeeded (selectIconHashes env (userIDsOf reactionModels))
                          then 1 else 0) else 0) else 0))
             [Query (SelectUsersIn (userIDsOf reactionModels)),
              Query (SelectThemesIn (userIDsOf reactionModels)),
              Query (SelectIconHashesIn (userIDsOf reactionModels)),
              Query (SelectLivestreamsIn (livestreamIDsOf reactionModels))]
       \<and> length (usersQueries (fst (fillReactionResponses env reactionModels))) = 1
       \<and> length (themesQueries (fst (fillReactionResponses env reactionModels))) =
           (if succeeded (selectUsers env (userIDsOf reactionModels)) then 1 else 0)
       \<and> length (iconHashesQueries (fst (fillReactionResponses env reactionModels))) =
           (if succeeded (selectUsers env (userIDsOf reactionModels))
             \<and> succeeded (selectThemes env (userIDsOf reactionModels)) then 1 else 0)
       \<and> length (livestreamsQueries (fst (fillReactionResponses env reactionModels))) =
           (if succeeded (selectUsers env (userIDsOf reactionModels))
             \<and> succeeded (selectThemes env (userIDsOf reactionModels))
             \<and> succeeded (selectIconHashes env (userIDsOf reactionModels)) then 1 else 0)
       \<and> (succeeded (snd (fillReactionResponses env reactionModels)) \<longrightarrow>
            length (themesQueries (fst (fillReactionResponses env reactionModels))) = 1
          \<and> length (iconHashesQueries (fst (fillReactionResponses env reactionModels))) = 1
          \<and> length (livestreamsQueries (fst (fillReactionResponses env reactionModels))) = 1
          \<and> length (fst (fillReactionResponses env reactionModels)) = 4)"
proof -
  have ne: "userIDsOf reactionModels \<noteq> []"
    using assms by (rule userIDsOf_nonempty)
  have ok: "succeeded (snd (fillReactionResponses env reactionModels)) \<longrightarrow>
              succeeded (selectUsers env (userIDsOf reactionModels))
            \<and> succeeded (selectThemes env (userIDsOf reactionModels))
            \<and> succeeded (selectIconHashes env (userIDsOf reactionModels))"
    using fillReactionResponses_succeeded[OF assms, of env]
    by (simp add: fillUserResponses_succeeded[OF ne])
  show ?thesis
    using ok
    by (cases "succeeded (selectUsers env (userIDsOf reactionModels))";
        cases "succeeded (selectThemes env (userIDsOf reactionModels))";
        cases "succeeded (selectIconHashes env (userIDsOf reactionModels))")
       (simp_all add: fillReactionResponses_log[OF assms] fillUserResponses_log[OF ne]
          fillUserResponses_succeeded[OF ne] query_lists)
qed

theorem fillReactionResponses_bulk_queries_witness:
  "[reaction1, reaction2, reaction3] \<noteq> []
 \<and> succeeded (snd (fillReactionResponses sampleEnv [reaction1, reaction2, reaction3]))
 \<and> length (usersQueries (fst (fillReactionResponses sampleEnv
      [reaction1, reaction2, reaction3]))) = 1
 \<and> length (themesQueries (fst (fillReactionResponses sampleEnv
      [reaction1, reaction2, reaction3]))) = 1
 \<and> length (iconHashesQueries (fst (fillReactionResponses sampleEnv
      [reaction1, reaction2, reaction3]))) = 1
 \<and> length (livestreamsQueries (fst (fillReactionResponses sampleEnv
      [reaction1, reaction2, reaction3]))) = 1"
proof -
  have ne: "[reaction1, reaction2, reaction3] \<noteq> []"
    by simp
  have ok: "succeeded (snd (fillReactionResponses sampleEnv [reaction1, reaction2, reaction3]))"
    by (simp add: sample_fillReactionResponses succeeded_def)
  note t = fillReactionResponses_bulk_queries[OF ne, of sampleEnv]
  from t have u: "length (usersQueries (fst (fillReactionResponses sampleEnv
      [reaction1, reaction2, reaction3]))) = 1"
    by blast
  from t ok have r: "length (themesQueries (fst (fillReactionResponses sampleEnv
        [reaction1, reaction2, reaction3]))) = 1
    \<and> length (iconHashesQueries (fst (fillReactionResponses sampleEnv
        [reaction1, reaction2, reaction3]))) = 1
    \<and> length (livestreamsQueries (fst (fillReactionResponses sampleEnv
        [reaction1, reaction2, reaction3]))) = 1"
    by blast
  from ne ok u r show ?thesis
    by blast
qed

text \<open>
  With the users query failing, one record is enough to see that no themes query
  is sent.
\<close>

theorem fillReactionResponses_bulk_queries_counterexample:
  "[reaction1] \<noteq> []
 \<and> fst (fillReactionResponses usersDownEnv [reaction1]) = [Query (SelectUsersIn [0, 5])]
 \<and> length (themesQueries (fst (fillReactionResponses usersDownEnv [reaction1]))) \<noteq> 1"
  by (simp add: batch_steps sample_data query_lists)

text \<open>
  C2. When \<^verbatim>\<open>fillReactionResponses\<close> returns a result, the result has one response per
  input record, in the order of the input, whatever that order is: the response at
  position \<open>i\<close> has the identifier, the emoji name and the creation time of the record
  at position \<open>i\<close>, its user is the entry of the user response map for the record's user
  identifier, and its livestream is a hydrated livestream whose identifier is the
  record's livestream identifier (the zero value if no such livestream came back).
\<close>

theorem fillReactionResponses_mirrors_input:
  assumes "fillReactionResponses env reactionModels = (log, Inr reactions)"
  shows "length reactions = length reactionModels \<and>
    (\<forall>i<length reactionModels.
        Reaction.ID (reactions ! i) = ReactionModel.ID (reactionModels ! i)
      \<and> Reaction.EmojiName (reactions ! i) = ReactionModel.EmojiName (reactionModels ! i)
      \<and> Reaction.CreatedAt (reactions ! i) = ReactionModel.CreatedAt (reactionModels ! i)
      \<and> (\<exists>userResps livestreamModels livestreamResps.
            snd (fillUserResponses env (userIDsOf reactionModels)) = Inr userResps
          \<and> userResps (ReactionModel.UserID (reactionModels ! i)) = Some (User (reactions ! i))
          \<and> selectLivestreams env (livestreamIDsOf reactionModels) = Inr livestreamModels
          \<and> fillLivestreamResponses env livestreamModels = Inr livestreamResps
          \<and> (if LivestreamID (reactionModels ! i) \<in> idOfLivestream env ` set livestreamResps
              then Livestream (reactions ! i) \<in> set livestreamResps
                 \<and> idOfLivestream env (Livestream (reactions ! i))
                     = LivestreamID (reactionModels ! i)
              else Livestream (reactions ! i) = zeroLivestream env)))"
proof (cases "reactionModels = []")
  case True
  with assms show ?thesis
    by (simp add: fillReactionResponses_def local_def)
next
  case False
  from fillReactionResponses_result[OF assms False]
  obtain l userResps lms lrs where
    u: "fillUserResponses env (userIDsOf reactionModels) = (l, Inr userResps)" and
    lms: "selectLivestreams env (livestreamIDsOf reactionModels) = Inr lms" and
    lrs: "fillLivestreamResponses env lms = Inr lrs" and
    out: "reactions = map (reactionOf env userResps
            (foldl (\<lambda>m resp. m(idOfLivestream env resp \<mapsto> resp)) Map.empty lrs))
            reactionModels"
    by blast
  have len: "length reactions = length reactionModels"
    by (simp add: out)
  have each: "Reaction.ID (reactions ! i) = ReactionModel.ID (reactionModels ! i)
      \<and> Reaction.EmojiName (reactions ! i) = ReactionModel.EmojiName (reactionModels ! i)
      \<and> Reaction.CreatedAt (reactions ! i) = ReactionModel.CreatedAt (reactionModels ! i)
      \<and> userResps (ReactionModel.UserID (reactionModels ! i)) = Some (User (reactions ! i))
      \<and> (if LivestreamID (reactionModels ! i) \<in> idOfLivestream env ` set lrs
          then Livestream (reactions ! i) \<in> set lrs
             \<and> idOfLivestream env (Livestream (reactions ! i))
                 = LivestreamID (reactionModels ! i)
          else Livestream (reactions ! i) = zeroLivestream env)"
    if i: "i < length reactionModels" for i
  proof -
    have mem: "ReactionModel.UserID (reactionModels ! i) \<in> set (userIDsOf reactionModels)"
      using i by (simp add: userIDsOf_eq)
    from fillUserResponses_result[OF u] mem
    obtain user where user: "userResps (ReactionModel.UserID (reactionModels ! i)) = Some user"
      by auto
    have r: "reactions ! i = reactionOf env userResps
               (foldl (\<lambda>m resp. m(idOfLivestream env resp \<mapsto> resp)) Map.empty lrs)
               (reactionModels ! i)"
      using i by (simp add: out)
    show ?thesis
    proof (cases "LivestreamID (reactionModels ! i) \<in> idOfLivestream env ` set lrs")
      case True
      from index_foldl_upd_mem[OF True, of "zeroLivestream env"] True user
      show ?thesis by (simp add: r reactionOf_def index_def)
    next
      case False
      from foldl_upd_none[OF False, of "\<lambda>r. r"] False user
      show ?thesis by (simp add: r reactionOf_def index_def)
    qed
  qed
  show ?thesis
    using len each u lms lrs by auto
qed

theorem fillReactionResponses_mirrors_input_witness:
  "fillReactionResponses sampleEnv [reaction1, reaction2, reaction3]
     = (sampleLog, Inr sampleReactions)
 \<and> length sampleReactions = length [reaction1, reaction2, reaction3]
 \<and> Reaction.ID (sampleReactions ! 1) = ReactionModel.ID ([reaction1, reaction2, reaction3] ! 1)
 \<and> Reaction.EmojiName (sampleReactions ! 2)
     = ReactionModel.EmojiName ([reaction1, reaction2, reaction3] ! 2)"
  using sample_fillReactionResponses
    fillReactionResponses_mirrors_input[OF sample_fillReactionResponses]
  by simp

text \<open>
  C3 (as amended). For every non-empty list of reaction records, the identifier list
  that \<^verbatim>\<open>fillReactionResponses\<close> passes to the bulk users query ends with the user
  identifiers of the records, one entry per record in the order of the records, so
  that every referenced identifier is in it and an identifier referenced by several
  records is repeated; the same holds for the livestream identifiers and the bulk
  livestreams query, which is sent once the user responses have been built.
\<close>

theorem fillReactionResponses_query_ids:
  assumes "reactionModels \<noteq> []"
  shows "\<exists>pre pre'.
           usersQueries (fst (fillReactionResponses env reactionModels))
             = [pre @ map ReactionModel.UserID reactionModels]
         \<and> livestreamsQueries (fst (fillReactionResponses env reactionModels))
             = (if succeeded (snd (fillUserResponses env (userIDsOf reactionModels)))
                then [pre' @ map LivestreamID reactionModels] else [])"
proof -
  have ne: "userIDsOf reactionModels \<noteq> []"
    using assms by (rule userIDsOf_nonempty)
  have "usersQueries (fst (fillReactionResponses env reactionModels))
             = [userIDsOf reactionModels]
         \<and> livestreamsQueries (fst (fillReactionResponses env reactionModels))
             = (if succeeded (snd (fillUserResponses env (userIDsOf reactionModels)))
                then [livestreamIDsOf reactionModels] else [])"
    by (cases "succeeded (selectUsers env (userIDsOf reactionModels))";
        cases "succeeded (selectThemes env (userIDsOf reactionModels))";
        cases "succeeded (selectIconHashes env (userIDsOf reactionModels))")
       (simp_all add: fillReactionResponses_log[OF assms] fillUserResponses_log[OF ne]
          fillUserResponses_succeeded[OF ne] query_lists)
  then show ?thesis
    by (intro exI[of _ "replicate (length reactionModels) 0"])
       (simp flip: userIDsOf_eq livestreamIDsOf_eq)
qed

theorem fillReactionResponses_query_ids_witness:
  "[reaction1, reaction3] \<noteq> []
 \<and> succeeded (snd (fillUserResponses sampleEnv (userIDsOf [reaction1, reaction3])))
 \<and> (\<exists>pre pre'.
       usersQueries (fst (fillReactionResponses sampleEnv [reaction1, reaction3]))
         = [pre @ [5, 5]]
     \<and> livestreamsQueries (fst (fillReactionResponses sampleEnv [reaction1, reaction3]))
         = [pre' @ [7, 8]])"
proof -
  have ok: "succeeded (snd (fillUserResponses sampleEnv (userIDsOf [reaction1, reaction3])))"
    by (simp add: batch_steps sample_data succeeded_def)
  have ids: "map ReactionModel.UserID [reaction1, reaction3] = [5, 5]"
            "map LivestreamID [reaction1, reaction3] = [7, 8]"
    by (simp_all add: sample_data)
  show ?thesis
    using ok fillReactionResponses_query_ids[of "[reaction1, reaction3]" sampleEnv]
    by (simp only: ids if_True) simp
qed

text \<open>
  Two reactions of the same user: the list passed to the users query has the user
  twice, and the identifier 0, which no record references, twice as well.
\<close>

theorem fillReactionResponses_query_ids_counterexample:
  "usersQueries (fst (fillReactionResponses sampleEnv [reaction1, reaction3]))
     = [[0, 0, 5, 5]]
 \<and> livestreamsQueries (fst (fillReactionResponses sampleEnv [reaction1, reaction3]))
     = [[0, 0, 7, 8]]
 \<and> \<not> distinct [0, 0, 5, 5 :: int]
 \<and> 0 \<in> set [0, 0, 5, 5 :: int]
 \<and> 0 \<notin> ReactionModel.UserID ` set [reaction1, reaction3]
 \<and> 0 \<in> set [0, 0, 7, 8 :: int]
 \<and> 0 \<notin> LivestreamID ` set [reaction1, reaction3]"
  by (simp add: batch_steps sample_data query_lists)

subsection \<open>The user response builder\<close>

text \<open>
  C4. When \<^verbatim>\<open>fillUserResponses\<close> returns a result, every requested user identifier
  for which the icon hash query returned no row has a response in the result, and
  the icon hash of that response is the constant \<^verbatim>\<open>fallbackImageHash\<close>; so the field
  is not empty, the constant being a non-empty string.
\<close>

theorem fillUserResponses_fallback_hash:
  assumes "fillUserResponses env userIDs = (log, Inr userResponseMap)"
      and "uid \<in> set userIDs"
      and "selectIconHashes env userIDs = Inr iconHashes"
      and "uid \<notin> IconHashRow.UserID ` set iconHashes"
  shows "\<exists>user. userResponseMap uid = Some user
            \<and> IconHash user = fallbackImageHash env
            \<and> (fallbackImageHash env \<noteq> [] \<longrightarrow> IconHash user \<noteq> [])"
proof -
  from fillUserResponses_result[OF assms(1)] assms(3)
  obtain us ts where m: "userResponseMap = (\<lambda>uid. if uid \<in> set userIDs then
                 Some (userResponseOf env
                   (foldl (\<lambda>m ownerModel. m(UserModel.ID ownerModel \<mapsto> ownerModel))
                      Map.empty us)
                   (foldl (\<lambda>m themeModel. m(ThemeModel.UserID themeModel \<mapsto> themeModel))
                      Map.empty ts)
                   (foldl (\<lambda>m iconHash. m(IconHashRow.UserID iconHash \<mapsto> Hash iconHash))
                      Map.empty iconHashes)
                   uid)
               else None)"
    by auto
  show ?thesis
    using assms(2) foldl_upd_none[OF assms(4), of Hash]
    by (simp add: m userResponseOf_def)
qed

theorem fillUserResponses_fallback_hash_witness:
  "6 \<in> set [5, 6 :: int]
 \<and> selectIconHashes sampleEnv [5, 6] = Inr [\<lparr>IconHashRow.UserID = 5, Hash = ''a1b2c3''\<rparr>]
 \<and> 6 \<notin> IconHashRow.UserID ` set [\<lparr>IconHashRow.UserID = 5, Hash = ''a1b2c3''\<rparr>]
 \<and> fallbackImageHash sampleEnv \<noteq> []
 \<and> (\<exists>user. [5 \<mapsto> aliceUser, 6 \<mapsto> bobUser] (6::int) = Some user
        \<and> IconHash user = fallbackImageHash sampleEnv \<and> IconHash user \<noteq> [])"
proof -
  have rows: "selectIconHashes sampleEnv [5, 6]
                = Inr [\<lparr>IconHashRow.UserID = 5, Hash = ''a1b2c3''\<rparr>]"
    by (simp add: sample_data)
  have absent: "6 \<notin> IconHashRow.UserID ` set [\<lparr>IconHashRow.UserID = 5, Hash = ''a1b2c3''\<rparr>]"
    by simp
  have fb: "fallbackImageHash sampleEnv \<noteq> []"
    by (simp add: sample_data)
  have req: "6 \<in> set [5, 6 :: int]"
    by simp
  from fillUserResponses_fallback_hash[OF sample_fillUserResponses req rows absent] fb
  have "\<exists>user. [5 \<mapsto> aliceUser, 6 \<mapsto> bobUser] (6::int) = Some user
        \<and> IconHash user = fallbackImageHash sampleEnv \<and> IconHash user \<noteq> []"
    by blast
  with rows absent fb req show ?thesis by blast
qed

subsection \<open>Empty input\<close>

text \<open>
  C7 (as amended). \<^verbatim>\<open>fillReactionResponses\<close> on an empty record list returns the
  empty sequence and sends no query. \<^verbatim>\<open>fillUserResponses\<close> on an empty identifier
  list sends no query either, and returns the error of \<^verbatim>\<open>sqlx.In\<close> for an empty
  slice.
\<close>

theorem empty_input:
  "fillReactionResponses env [] = ([], Inr [])
 \<and> fillUserResponses env [] = ([], Inl ErrEmptySlice)"
  by (simp add: fillReactionResponses_def fillUserResponses_def andThen_def local_def
        sqlxIn_def)

theorem fillUserResponses_empty_counterexample:
  "fillUserResponses sampleEnv [] = ([], Inl ErrEmptySlice)
 \<and> fillUserResponses sampleEnv [] \<noteq> ([], Inr Map.empty)"
  by (simp add: fillUserResponses_def andThen_def local_def sqlxIn_def)

subsection \<open>The transaction of a handler\<close>

lemma snd_began: "snd (began rest) = snd rest"
  by (cases rest) (simp add: began_def)

lemma snd_deferRollback: "snd (deferRollback rest) = snd rest"
  by (cases rest) (simp add: deferRollback_def)

text \<open>The two assemblers send queries only.\<close>

lemma fillReactionResponses_sends_queries:
  assumes "fillReactionResponses env rs = (l, r)"
  shows "Commit \<notin> set l \<and> Rollback \<notin> set l \<and> Begin \<notin> set l"
proof (cases "rs = []")
  case True
  with assms show ?thesis
    by (simp add: fillReactionResponses_def local_def)
next
  case False
  then have ne: "userIDsOf rs \<noteq> []"
    by (rule userIDsOf_nonempty)
  from assms have "l = fst (fillReactionResponses env rs)"
    by simp
  then show ?thesis
    by (simp add: fillReactionResponses_log[OF False] fillUserResponses_log[OF ne])
qed







subsection \<open>getReactionsHandler\<close>

text \<open>
  The persistence failures of the list handler, for a request that passes the session
  check and has an integer livestream identifier and no or an integer limit: a
  failure to open the transaction, a failure of the batch assembly and a failure of
  the commit are each answered with status 500 and a message that ends with the
  message of the cause; a failure of the bulk reactions query is answered with
  status 404 and a fixed message.
\<close>

lemma getReactionsHandler_failures:
  assumes "verifyUserSession c = None"
      and "Atoi (paramLivestreamID c) = Some livestreamID"
      and "queryParamLimit c = [] \<or> Atoi (queryParamLimit c) \<noteq> None"
      and "limit = (if queryParamLimit c \<noteq> [] then Atoi (queryParamLimit c) else None)"
  shows "(beginTx env = Some err \<longrightarrow>
            getReactionsHandler env c =
              ([], Returns (HTTPError StatusInternalServerError
                     (''failed to begin transaction: '' @ Error err))))
       \<and> (beginTx env = None \<and> selectReactions env livestreamID limit = Inl err \<longrightarrow>
            getReactionsHandler env c =
              ([Begin, Query (SelectReactions livestreamID limit), Rollback],
               Returns (HTTPError StatusNotFound ''failed to get reactions'')))
       \<and> (beginTx env = None \<and> selectReactions env livestreamID limit = Inr reactionModels
            \<and> snd (fillReactionResponses env reactionModels) = Inl err \<longrightarrow>
            snd (getReactionsHandler env c) =
               Returns (HTTPError StatusInternalServerError
                 (''failed to fill reactions: '' @ Error err)))
       \<and> (beginTx env = None \<and> selectReactions env livestreamID limit = Inr reactionModels
            \<and> snd (fillReactionResponses env reactionModels) = Inr reactions
            \<and> commitTx env = Some err \<longrightarrow>
            snd (getReactionsHandler env c) =
               Returns (HTTPError StatusInternalServerError
                 (''failed to commit: '' @ Error err)))"
  using assms
  by (auto simp: getReactionsHandler_def began_def deferRollback_def Let_def
        split: prod.splits dest: fillReactionResponses_sends_queries)

text \<open>
  C6. The claim is that every persistence failure of the list operation, and the
  failure of the bulk reactions query in particular, surfaces as an internal error
  that wraps the message of the cause. On the sample store: when the bulk reactions
  query fails (the connection is lost, or the request has \<^verbatim>\<open>limit=-1\<close>), the handler
  answers 404 with the fixed message \<^verbatim>\<open>failed to get reactions\<close>, which does not
  contain the cause; when opening the transaction, the batch assembly or the commit
  fails, it answers 500 with the cause.
\<close>

theorem getReactionsHandler_query_failure:
  "selectReactions reactionsDownEnv 7 None = Inl (DBError ''connection lost'')
 \<and> getReactionsHandler reactionsDownEnv sampleContext
     = ([Begin, Query (SelectReactions 7 None), Rollback],
        Returns (HTTPError StatusNotFound ''failed to get reactions''))
 \<and> getReactionsHandler sampleEnv negativeLimitContext
     = ([Begin, Query (SelectReactions 7 (Some (- 1))), Rollback],
        Returns (HTTPError StatusNotFound ''failed to get reactions''))
 \<and> StatusNotFound \<noteq> StatusInternalServerError
 \<and> getReactionsHandler txDownEnv sampleContext
     = ([], Returns (HTTPError StatusInternalServerError
              ''failed to begin transaction: connection refused''))
 \<and> snd (getReactionsHandler usersDownEnv sampleContext)
     = Returns (HTTPError StatusInternalServerError
         ''failed to fill reactions: connection lost'')
 \<and> snd (getReactionsHandler commitDownEnv sampleContext)
     = Returns (HTTPError StatusInternalServerError ''failed to commit: connection lost'')"
  by (simp add: handler_steps batch_steps sample_data Atoi_7 Atoi_minus_1)

text \<open>
  C8 (as amended). For every request to list reactions whose \<^verbatim>\<open>limit\<close> parameter has
  a non-empty value that is not an integer, the handler sends no query; and if the
  request passes the session check and the transaction can be opened, the answer is
  a bad request (with an integer livestream identifier the transaction is opened and
  rolled back, and the message is the one about the limit).
\<close>

theorem getReactionsHandler_invalid_limit:
  assumes "queryParamLimit c \<noteq> []" and "Atoi (queryParamLimit c) = None"
  shows "queriesOf (fst (getReactionsHandler env c)) = []
       \<and> (verifyUserSession c = None \<and> beginTx env = None \<longrightarrow>
            (\<exists>msg. snd (getReactionsHandler env c)
                     = Returns (HTTPError StatusBadRequest msg)))
       \<and> (verifyUserSession c = None \<and> Atoi (paramLivestreamID c) \<noteq> None
            \<and> beginTx env = None \<longrightarrow>
            getReactionsHandler env c =
              ([Begin, Rollback],
               Returns (HTTPError StatusBadRequest
                 ''limit query parameter must be integer'')))"
  using assms
  by (auto simp: getReactionsHandler_def began_def deferRollback_def queriesOf_def
        split: option.splits)

theorem getReactionsHandler_invalid_limit_witness:
  "queryParamLimit badLimitContext \<noteq> []
 \<and> Atoi (queryParamLimit badLimitContext) = None
 \<and> queriesOf (fst (getReactionsHandler sampleEnv badLimitContext)) = []
 \<and> getReactionsHandler sampleEnv badLimitContext
     = ([Begin, Rollback],
        Returns (HTTPError 400 ''limit query parameter must be integer''))"
proof -
  have h: "queryParamLimit badLimitContext \<noteq> []"
          "Atoi (queryParamLimit badLimitContext) = None"
    by (simp_all add: sample_data Atoi_abc)
  have r: "verifyUserSession badLimitContext = None"
          "Atoi (paramLivestreamID badLimitContext) \<noteq> None" "beginTx sampleEnv = None"
    by (simp_all add: sample_data Atoi_7)
  show ?thesis
    using h r getReactionsHandler_invalid_limit[OF h, of sampleEnv]
    by (simp add: StatusBadRequest_def queriesOf_def)
qed

text \<open>
  Two requests whose limit is present and not an integer. For \<^verbatim>\<open>?limit=\<close> the value is
  empty, the parse is skipped, the queries are sent and the answer is 200. For
  \<^verbatim>\<open>?limit=abc\<close> the limit is checked after the transaction has been opened: when
  that fails, the answer is 500.
\<close>

theorem getReactionsHandler_invalid_limit_counterexample:
  "queryParamLimit emptyLimitContext = []
 \<and> Atoi (queryParamLimit emptyLimitContext) = None
 \<and> queriesOf (fst (getReactionsHandler sampleEnv emptyLimitContext))
     = [SelectReactions 7 None, SelectUsersIn [0, 0, 6, 5], SelectThemesIn [0, 0, 6, 5],
        SelectIconHashesIn [0, 0, 6, 5], SelectLivestreamsIn [0, 0, 7, 7]]
 \<and> snd (getReactionsHandler sampleEnv emptyLimitContext)
     = Returns (JSON StatusOK (rev (butlast sampleReactions)))
 \<and> queryParamLimit badLimitContext \<noteq> []
 \<and> Atoi (queryParamLimit badLimitContext) = None
 \<and> getReactionsHandler txDownEnv badLimitContext
     = ([], Returns (HTTPError StatusInternalServerError
              ''failed to begin transaction: connection refused''))
 \<and> StatusInternalServerError \<noteq> StatusBadRequest"
  by (simp add: handler_steps batch_steps sample_data Atoi_7 Atoi_abc Atoi_empty
        queriesOf_def)

subsection \<open>postReactionHandler\<close>

text \<open>
  C5 (as amended). When the post handler has inserted the reaction and one of the two
  single-row lookups of \<^verbatim>\<open>fillReactionResponse\<close> (the user, the livestream) fails,
  with zero rows or with any other error, the answer has status 500 and the message
  \<^verbatim>\<open>failed to fill reaction: \<close> followed by the message of the cause.
\<close>

theorem postReactionHandler_lookup_failure:
  assumes "Atoi (paramLivestreamID c) = Some livestreamID"
      and "verifyUserSession c = None"
      and "sessionUserID c = Some userID"
      and "Decode (requestBody c) = Some (Some req)"
      and "beginTx env = None"
      and "insertReaction env
             \<lparr>ReactionModel.ID = 0, EmojiName = PostReactionRequest.EmojiName req,
              UserID = userID, LivestreamID = livestreamID, CreatedAt = now env\<rparr>
           = Inr (Inr reactionID)"
      and "getUser env userID = Inl err
         \<or> (getUser env userID = Inr userModel
            \<and> fillUserResponse env userModel = Inr user
            \<and> getLivestream env livestreamID = Inl err)"
  shows "snd (postReactionHandler env c) =
           Returns (HTTPError StatusInternalServerError
             (''failed to fill reaction: '' @ Error err))"
  using assms
  by (auto simp: postReactionHandler_def snd_began snd_deferRollback
        fillReactionResponse_def andThen_def issue_def local_def)

theorem postReactionHandler_lookup_failure_witness:
  "getUser sampleEnv 9 = Inl ErrNoRows
 \<and> snd (postReactionHandler sampleEnv unknownUserContext)
     = Returns (HTTPError 500 ''failed to fill reaction: sql: no rows in result set'')"
proof -
  have h: "Atoi (paramLivestreamID unknownUserContext) = Some 7"
          "verifyUserSession unknownUserContext = None"
          "sessionUserID unknownUserContext = Some 9"
          "Decode (requestBody unknownUserContext)
             = Some (Some \<lparr>PostReactionRequest.EmojiName = '':tada:''\<rparr>)"
          "beginTx sampleEnv = None"
          "insertReaction sampleEnv
             \<lparr>ReactionModel.ID = 0,
              EmojiName = PostReactionRequest.EmojiName
                            \<lparr>PostReactionRequest.EmojiName = '':tada:''\<rparr>,
              UserID = 9, LivestreamID = 7, CreatedAt = now sampleEnv\<rparr>
           = Inr (Inr 4)"
    by (simp_all add: sample_data Atoi_7 Decode_tada)
  have u: "getUser sampleEnv 9 = Inl ErrNoRows"
    by (simp add: sample_data)
  from u have d: "getUser sampleEnv 9 = Inl ErrNoRows
         \<or> (getUser sampleEnv 9 = Inr alice
            \<and> fillUserResponse sampleEnv alice = Inr aliceUser
            \<and> getLivestream sampleEnv 7 = Inl ErrNoRows)"
    by simp
  show ?thesis
    using u postReactionHandler_lookup_failure[OF h d]
    by (simp add: StatusInternalServerError_def)
qed

text \<open>
  A reaction posted to a livestream that does not exist: the livestream lookup finds
  no row, and the answer is 500, not 404.
\<close>

theorem postReactionHandler_lookup_failure_counterexample:
  "getLivestream sampleEnv 9 = Inl ErrNoRows
 \<and> postReactionHandler sampleEnv missingLivestreamContext
     = ([Begin,
         Query (InsertReaction \<lparr>ReactionModel.ID = 0, EmojiName = '':tada:'', UserID = 5,
                  LivestreamID = 9, CreatedAt = 1700000000\<rparr>),
         Query (GetUser 5), Query (GetLivestream 9), Rollback],
        Returns (HTTPError StatusInternalServerError
          ''failed to fill reaction: sql: no rows in result set''))
 \<and> StatusInternalServerError \<noteq> StatusNotFound"
  by (simp add: handler_steps batch_steps sample_data Atoi_9 toLower_def)

text \<open>
  C10. The JSON literal \<^verbatim>\<open>null\<close> decodes without error and leaves the request pointer
  \<^verbatim>\<open>nil\<close>. A post request with that body, an integer livestream identifier and a
  valid session, for which the transaction opens, makes the handler panic when it
  reads the emoji name (the deferred rollback runs); a body that is not JSON is
  answered with a bad request instead.
\<close>

theorem postReactionHandler_null_body:
  "Decode (Parsed JNull) = Some None
 \<and> (Atoi (paramLivestreamID c) \<noteq> None \<and> verifyUserSession c = None
      \<and> sessionUserID c \<noteq> None \<and> beginTx env = None
      \<longrightarrow> (requestBody c = Parsed JNull
             \<longrightarrow> postReactionHandler env c = ([Begin, Rollback], Panics))
        \<and> (requestBody c = Malformed
             \<longrightarrow> postReactionHandler env c =
                   ([], Returns (HTTPError StatusBadRequest
                      ''failed to decode the request body as json''))))"
  by (auto simp: postReactionHandler_def Decode_def began_def deferRollback_def)

theorem postReactionHandler_null_body_witness:
  "requestBody nullBodyContext = Parsed JNull
 \<and> postReactionHandler sampleEnv nullBodyContext = ([Begin, Rollback], Panics)
 \<and> requestBody malformedBodyContext = Malformed
 \<and> postReactionHandler sampleEnv malformedBodyContext
     = ([], Returns (HTTPError 400 ''failed to decode the request body as json''))"
proof -
  have n: "Atoi (paramLivestreamID nullBodyContext) \<noteq> None"
          "verifyUserSession nullBodyContext = None"
          "sessionUserID nullBodyContext \<noteq> None"
          "requestBody nullBodyContext = Parsed JNull"
    by (simp_all add: sample_data Atoi_7)
  have m: "Atoi (paramLivestreamID malformedBodyContext) \<noteq> None"
          "verifyUserSession malformedBodyContext = None"
          "sessionUserID malformedBodyContext \<noteq> None"
          "requestBody malformedBodyContext = Malformed"
    by (simp_all add: sample_data Atoi_7)
  have b: "beginTx sampleEnv = None"
    by (simp add: sample_data)
  show ?thesis
    using n m b postReactionHandler_null_body[of nullBodyContext sampleEnv]
          postReactionHandler_null_body[of malformedBodyContext sampleEnv]
    by (simp add: StatusBadRequest_def)
qed

end
